theory Spec2Isabelle
  imports Complex_Main "HOL-Library.Word"
begin

section \<open>Numbers and strings of the program\<close>

text \<open>
  The program is TypeScript. A string is a sequence of UTF-16 code units, and
  \<open>charCodeAt\<close> reads one of them as a number.

  A \<open>number\<close> is an IEEE double. The model keeps the special values that decide what the
  program does (a division by zero gives an infinity or NaN, NaN is falsy and compares
  false with everything) and takes every finite number as an exact rational: rounding,
  overflow to an infinity and the sign of zero are left out. Numbers that come out of the
  JSON payloads or out of the generator (\<open>close\<close>, \<open>pe\<close>, \<open>p_e_ratio\<close>)
  are finite and have type \<open>rat\<close>; a number that the program obtains through a division
  has type \<open>jsnum\<close>.
\<close>

type_synonym jsstring = "16 word list"

datatype jsnum = Num rat | PosInf | NegInf | NaN

fun js_neg :: "jsnum \<Rightarrow> jsnum" where
  "js_neg (Num a) = Num (- a)"
| "js_neg PosInf = NegInf"
| "js_neg NegInf = PosInf"
| "js_neg NaN = NaN"

fun js_add :: "jsnum \<Rightarrow> jsnum \<Rightarrow> jsnum" where
  "js_add (Num a) (Num b) = Num (a + b)"
| "js_add NaN _ = NaN"
| "js_add _ NaN = NaN"
| "js_add PosInf NegInf = NaN"
| "js_add NegInf PosInf = NaN"
| "js_add PosInf _ = PosInf"
| "js_add NegInf _ = NegInf"
| "js_add _ PosInf = PosInf"
| "js_add _ NegInf = NegInf"

definition js_sub :: "jsnum \<Rightarrow> jsnum \<Rightarrow> jsnum" where
  "js_sub a b = js_add a (js_neg b)"

text \<open>The sign of a number that is not NaN, and the infinity of a given sign.\<close>

fun js_sign :: "jsnum \<Rightarrow> int" where
  "js_sign (Num a) = (if a < 0 then - 1 else if a = 0 then 0 else 1)"
| "js_sign PosInf = 1"
| "js_sign NegInf = - 1"
| "js_sign NaN = 0"

definition js_inf :: "int \<Rightarrow> jsnum" where
  "js_inf s = (if s = 0 then NaN else if 0 < s then PosInf else NegInf)"

fun js_mul :: "jsnum \<Rightarrow> jsnum \<Rightarrow> jsnum" where
  "js_mul (Num a) (Num b) = Num (a * b)"
| "js_mul NaN _ = NaN"
| "js_mul _ NaN = NaN"
| "js_mul a b = js_inf (js_sign a * js_sign b)"

text \<open>
  Division: a finite quotient when the divisor is finite and not zero; zero by zero and
  infinity by infinity are NaN; a non-zero number by zero is the infinity of the sign of
  the dividend (the zero divisors of the program are positive zeros: a literal, a length,
  or a difference of two equal numbers).
\<close>

fun js_div :: "jsnum \<Rightarrow> jsnum \<Rightarrow> jsnum" where
  "js_div (Num a) (Num b) = (if b \<noteq> 0 then Num (a / b) else js_inf (js_sign (Num a)))"
| "js_div NaN _ = NaN"
| "js_div _ NaN = NaN"
| "js_div (Num a) _ = Num 0"
| "js_div a (Num b) = js_inf (js_sign a * (if b < 0 then - 1 else 1))"
| "js_div _ _ = NaN"

text \<open>\<open>a <= b\<close> and \<open>a >= b\<close> of the language: false as soon as one side is NaN.\<close>

fun js_le :: "jsnum \<Rightarrow> jsnum \<Rightarrow> bool" where
  "js_le (Num a) (Num b) = (a \<le> b)"
| "js_le NaN _ = False"
| "js_le _ NaN = False"
| "js_le NegInf _ = True"
| "js_le _ PosInf = True"
| "js_le _ _ = False"

definition js_ge :: "jsnum \<Rightarrow> jsnum \<Rightarrow> bool" where
  "js_ge a b = js_le b a"

text \<open>\<open>Math.max\<close> and \<open>Math.min\<close> of two numbers: NaN when one of them is NaN.\<close>

definition Math_max :: "jsnum \<Rightarrow> jsnum \<Rightarrow> jsnum" where
  "Math_max a b = (if a = NaN \<or> b = NaN then NaN else if js_le a b then b else a)"

definition Math_min :: "jsnum \<Rightarrow> jsnum \<Rightarrow> jsnum" where
  "Math_min a b = (if a = NaN \<or> b = NaN then NaN else if js_le a b then a else b)"

text \<open>Truthiness of a number: \<open>!x\<close> holds for zero and for NaN only.\<close>

fun truthy :: "jsnum \<Rightarrow> bool" where
  "truthy (Num a) = (a \<noteq> 0)"
| "truthy NaN = False"
| "truthy _ = True"

text \<open>
  \<open>parseFloat(x.toFixed(2))\<close>: the nearest multiple of 1/100, a tie going away from
  zero.
\<close>

definition toFixed2 :: "rat \<Rightarrow> rat" where
  "toFixed2 x =
     (if x < 0 then - (of_int \<lfloor>- x * 100 + 1 / 2\<rfloor> / 100)
      else of_int \<lfloor>x * 100 + 1 / 2\<rfloor> / 100)"

section \<open>Data model\<close>

text \<open>
  \<open>HistoryItem\<close> is the interface of the source. The records of the two remote data sets
  carry a date too; the price record is a \<open>date\<close> with a \<open>close\<close>, the P/E record a
  \<open>date\<close> with a \<open>p_e_ratio\<close>, which JSON may deliver as \<open>null\<close>.
\<close>

record Dated =
  date :: jsstring

record PriceRecord = Dated +
  close :: rat

record HistoryItem = PriceRecord +
  pe :: rat

record PERecord = Dated +
  p_e_ratio :: "rat option"

record InfoRecord =
  stock_name :: jsstring

record Valuation =
  minPE :: rat
  maxPE :: rat
  cheapPrice :: jsnum
  fairPrice :: jsnum
  expensivePrice :: jsnum
  eps :: jsnum

text \<open>
  \<open>change\<close> is a decimal string in the source (the result of \<open>toFixed(2)\<close>); the model
  keeps the number it denotes.
\<close>

record StockData =
  source :: jsstring
  isReal :: bool
  symbol :: jsstring
  name :: jsstring
  currentPrice :: rat
  change :: rat
  currentPE :: "rat option"
  historyData :: "HistoryItem list"
  valuation :: Valuation

record MaData =
  ma5 :: jsnum
  ma10 :: jsnum
  ma20 :: jsnum
  ma60 :: jsnum
  ma120 :: jsnum
  ma240 :: jsnum

section \<open>Moving averages\<close>

text \<open>
  \<open>calculateMA\<close>: \<open>None\<close> stands for a \<open>data\<close> that is \<open>null\<close> (the test
  \<open>!data\<close>; an array, also the empty one, is truthy). \<open>slice(0, days)\<close> is \<open>take\<close>,
  \<open>reduce\<close> from 0 is a left fold.
\<close>

definition calculateMA :: "HistoryItem list option \<Rightarrow> nat \<Rightarrow> jsnum" where
  "calculateMA data days =
     (case data of
        None \<Rightarrow> Num 0
      | Some xs \<Rightarrow>
          if length xs < days then Num 0
          else
            let sum = foldl (\<lambda>acc curr. acc + close curr) 0 (take days xs)
            in js_div (Num sum) (Num (of_nat days)))"

definition maData :: "StockData option \<Rightarrow> MaData option" where
  "maData stockData =
     (case stockData of
        None \<Rightarrow> None
      | Some d \<Rightarrow>
          Some \<lparr> ma5 = calculateMA (Some (historyData d)) 5,
                 ma10 = calculateMA (Some (historyData d)) 10,
                 ma20 = calculateMA (Some (historyData d)) 20,
                 ma60 = calculateMA (Some (historyData d)) 60,
                 ma120 = calculateMA (Some (historyData d)) 120,
                 ma240 = calculateMA (Some (historyData d)) 240 \<rparr>)"

section \<open>The live data path\<close>

text \<open>
  \<open>fetchRealStockData\<close> awaits three responses and reads the \<open>data\<close> member of each
  parsed body. The model starts there: its arguments are the symbol and the three \<open>data\<close>
  members, \<open>None\<close> for a member that is missing. (A request that fails, or a body that
  is not JSON, raises before that, and the caller treats it like the two errors below.)
\<close>

datatype fetch_error =
    NoPriceData  \<comment> \<open>the \<open>Error\<close> thrown when there is no price record\<close>
  | TypeError    \<comment> \<open>\<open>perJson.data.reverse()\<close> on a missing \<open>data\<close>\<close>

text \<open>
  The function mapped over \<open>rawPrices\<close> (lines 75 to 79): \<open>find\<close> gives the first P/E
  record of the same date; \<open>?.p_e_ratio || 0\<close> is 0 when there is none, when its ratio is
  \<open>null\<close> and when its ratio is 0.
\<close>

definition joinPE :: "PERecord list \<Rightarrow> PriceRecord \<Rightarrow> HistoryItem" where
  "joinPE rawPERs d =
     \<lparr> date = date d, close = close d,
       pe = (case find (\<lambda>p. date p = date d) rawPERs of
               None \<Rightarrow> 0
             | Some p \<Rightarrow>
                 (case p_e_ratio p of
                    None \<Rightarrow> 0
                  | Some x \<Rightarrow> if x \<noteq> 0 then x else 0)) \<rparr>"

text \<open>
  \<open>validPEs\<close> (lines 81 to 84): the ratios, those strictly between 0 and 200 (\<open>null > 0\<close>
  is false), in ascending order.
\<close>

definition plausiblePE :: "rat option \<Rightarrow> bool" where
  "plausiblePE r = (case r of None \<Rightarrow> False | Some x \<Rightarrow> 0 < x \<and> x < 200)"

definition validPEs :: "PERecord list \<Rightarrow> rat list" where
  "validPEs rawPERs = sort (map the (filter plausiblePE (map p_e_ratio rawPERs)))"

text \<open>\<open>currentPERData || validPEs[0]\<close> (line 91): \<open>null\<close> and 0 are falsy.\<close>

definition validCurrentPE :: "rat option \<Rightarrow> rat list \<Rightarrow> rat" where
  "validCurrentPE currentPERData vs =
     (case currentPERData of
        None \<Rightarrow> vs ! 0
      | Some x \<Rightarrow> if x \<noteq> 0 then x else vs ! 0)"

text \<open>\<open>Math.floor(n * q)\<close> for a length \<open>n\<close>, as an index.\<close>

definition floorIndex :: "nat \<Rightarrow> rat \<Rightarrow> nat" where
  "floorIndex n q = nat \<lfloor>of_nat n * q\<rfloor>"

text \<open>
  Lines 86 to 101, from the current price (\<open>price\<close>), the latest ratio and
  \<open>validPEs\<close>. The three indices are read only when the list has more than ten
  elements, and are then inside the list (\<open>floorIndex_tenth_less\<close> and
  \<open>floorIndex_nine_tenths_less\<close> below).
\<close>

definition deriveValuation :: "rat \<Rightarrow> rat option \<Rightarrow> rat list \<Rightarrow> Valuation" where
  "deriveValuation price currentPERData vs =
     (let (minPE, maxPE, eps) =
            (if length vs > 10 then
               (vs ! floorIndex (length vs) (1 / 10),
                vs ! floorIndex (length vs) (9 / 10),
                js_div (Num price) (Num (validCurrentPE currentPERData vs)))
             else (10, 20, js_div (Num price) (Num 15)));
          cheapPrice = js_mul eps (Num minPE);
          expensivePrice = js_mul eps (Num maxPE);
          fairPrice = js_div (js_add cheapPrice expensivePrice) (Num 2)
      in \<lparr> minPE = minPE, maxPE = maxPE, cheapPrice = cheapPrice, fairPrice = fairPrice,
           expensivePrice = expensivePrice, eps = eps \<rparr>)"

definition fetchRealStockData ::
  "jsstring \<Rightarrow> PriceRecord list option \<Rightarrow> PERecord list option \<Rightarrow> InfoRecord list option
     \<Rightarrow> fetch_error + StockData" where
  "fetchRealStockData symb priceData perData infoData =
     (case priceData of
        None \<Rightarrow> Inl NoPriceData
      | Some ps \<Rightarrow>
          if length ps = 0 then Inl NoPriceData
          else
            (case perData of
               None \<Rightarrow> Inl TypeError
             | Some qs \<Rightarrow>
                 let rawPrices = rev ps;
                     rawPERs = rev qs;
                     stockName = (case infoData of Some (i # _) \<Rightarrow> stock_name i | _ \<Rightarrow> symb);
                     currentPrice = close (rawPrices ! 0);
                     currentPERData =
                       (if length rawPERs > 0 then p_e_ratio (rawPERs ! 0) else None);
                     prevPrice =
                       (if 1 < length rawPrices then close (rawPrices ! 1) else currentPrice)
                 in Inr \<lparr> source = [0x46, 0x69, 0x6E, 0x4D, 0x69, 0x6E, 0x64, 0x20, 0x41, 0x50, 0x49],
                          isReal = True,
                          symbol = symb,
                          name = stockName,
                          currentPrice = currentPrice,
                          change = toFixed2 (currentPrice - prevPrice),
                          currentPE = currentPERData,
                          historyData = map (joinPE rawPERs) rawPrices,
                          valuation =
                            deriveValuation currentPrice currentPERData (validPEs rawPERs) \<rparr>))"

section \<open>The mock data generator\<close>

text \<open>
  \<open>getMockData\<close> reads the clock, draws random numbers and calls \<open>Math.sin\<close> and
  \<open>toISOString\<close>. They are the platform's, and the model takes them as a record:
  \<open>Date_now\<close> is the clock in milliseconds (one reading for the whole call),
  \<open>Math_random k\<close> the number that the \<open>k\<close>-th call of \<open>Math.random()\<close> returns,
  counted from 0 at the start of \<open>getMockData\<close>, and \<open>toISODate t\<close> the date part of
  \<open>new Date(t).toISOString()\<close>.
\<close>

record Platform =
  Date_now :: int
  Math_random :: "nat \<Rightarrow> rat"
  Math_sin :: "rat \<Rightarrow> rat"
  toISODate :: "int \<Rightarrow> jsstring"

text \<open>
  The body of the \<open>for\<close> loop of \<open>generatePrices\<close> at the index \<open>i\<close>, on the price,
  the array built so far and the number of random draws made so far. The division by
  \<open>20 + Math.random() * 5\<close> is the field's: a draw lies in the interval from 0 to 1, so the
  divisor is not zero.
\<close>

definition generatePrices_body ::
  "Platform \<Rightarrow> nat \<Rightarrow> nat \<Rightarrow> rat \<times> HistoryItem list \<times> nat \<Rightarrow> rat \<times> HistoryItem list \<times> nat" where
  "generatePrices_body P days i s =
     (case s of (price, data, k) \<Rightarrow>
        let change = Math_sin P (of_nat i * (1 / 10)) * 10 + (Math_random P k - 1 / 2) * 5;
            price1 = price + change;
            price2 = (if price1 < 10 then 10 else price1);
            item = \<lparr> date = toISODate P (Date_now P - (int days - int i) * 24 * 60 * 60 * 1000),
                     close = toFixed2 price2,
                     pe = toFixed2 (price2 / (20 + Math_random P (k + 1) * 5)) \<rparr>
        in (price2, data @ [item], k + 2))"

text \<open>The loop: \<open>for (let i = 0; i < days; i++)\<close>, from the index \<open>i\<close>.\<close>

function generatePrices_loop ::
  "Platform \<Rightarrow> nat \<Rightarrow> nat \<Rightarrow> rat \<times> HistoryItem list \<times> nat \<Rightarrow> rat \<times> HistoryItem list \<times> nat" where
  "generatePrices_loop P days i s =
     (if i < days then generatePrices_loop P days (Suc i) (generatePrices_body P days i s)
      else s)"
  by pat_completeness auto
termination
  by (relation "measure (\<lambda>(P, days, i, s). days - i)") auto

definition generatePrices :: "Platform \<Rightarrow> nat \<Rightarrow> nat \<Rightarrow> HistoryItem list \<times> nat" where
  "generatePrices P seed days =
     (case generatePrices_loop P days 0 (500 + of_nat (seed mod 200), [], 0) of
        (price, data, k) \<Rightarrow> (rev data, k))"

definition symbolSeed :: "jsstring \<Rightarrow> nat" where
  "symbolSeed symb = foldl (\<lambda>acc char. acc + unat char) 0 symb"

definition getMockData :: "Platform \<Rightarrow> jsstring \<Rightarrow> StockData" where
  "getMockData P symb =
     (let seed = symbolSeed symb;
          (historyData, k) = generatePrices P seed (365 * 3);
          currentPrice = close (historyData ! 0);
          currentPE = pe (historyData ! 0);
          peValues = sort (map pe historyData);
          minPE = peValues ! floorIndex (length peValues) (1 / 10);
          maxPE = peValues ! floorIndex (length peValues) (9 / 10);
          eps = js_div (Num currentPrice) (Num currentPE)
      in \<lparr> source = [0x6A21, 0x64EC, 0x6578, 0x64DA, 0x20, 0x28, 0x41, 0x50, 0x49,
                      0x9023, 0x7DDA, 0x5931, 0x6557, 0x29],
           isReal = False,
           symbol = symb,
           name = (if symb = [0x32, 0x33, 0x33, 0x30]
                   then [0x53F0, 0x7A4D, 0x96FB, 0x28, 0x6A21, 0x29]
                   else [0x6A21, 0x64EC, 0x500B, 0x80A1]),
           currentPrice = currentPrice,
           change = toFixed2 (Math_random P k * 10 - 5),
           currentPE = Some currentPE,
           historyData = historyData,
           valuation =
             \<lparr> minPE = minPE, maxPE = maxPE,
               cheapPrice = js_mul eps (Num minPE),
               fairPrice = js_div (js_mul eps (Num (minPE + maxPE))) (Num 2),
               expensivePrice = js_mul eps (Num maxPE),
               eps = eps \<rparr> \<rparr>)"

section \<open>Classification and cursor\<close>

text \<open>
  The four labels that \<open>valuationStatus\<close> returns: \<open>NoData\<close> is the label of code units
  7121 8CC7 6599, \<open>Cheap\<close> 4FBF 5B9C 50F9, \<open>Fair\<close> 5408 7406 50F9, \<open>Expensive\<close>
  6602 8CB4 50F9 (hexadecimal).
\<close>

datatype Status = NoData | Cheap | Fair | Expensive

definition valuationStatus :: "StockData option \<Rightarrow> Status" where
  "valuationStatus stockData =
     (case stockData of
        None \<Rightarrow> NoData
      | Some d \<Rightarrow>
          let v = valuation d in
          if \<not> truthy (cheapPrice v) \<or> \<not> truthy (expensivePrice v) then NoData
          else
            let lowerThreshold =
                  js_add (js_mul (cheapPrice v) (Num (4 / 10))) (js_mul (fairPrice v) (Num (6 / 10)));
                upperThreshold =
                  js_add (js_mul (fairPrice v) (Num (4 / 10))) (js_mul (expensivePrice v) (Num (6 / 10)))
            in if js_le (Num (currentPrice d)) lowerThreshold then Cheap
               else if js_ge (Num (currentPrice d)) upperThreshold then Expensive
               else Fair)"

definition cursorPosition :: "StockData option \<Rightarrow> jsnum" where
  "cursorPosition stockData =
     (case stockData of
        None \<Rightarrow> Num 50
      | Some d \<Rightarrow>
          let v = valuation d in
          if \<not> truthy (cheapPrice v) then Num 50
          else
            let range = js_sub (js_mul (expensivePrice v) (Num (12 / 10)))
                               (js_mul (cheapPrice v) (Num (8 / 10)));
                pos = js_mul (js_div (js_sub (Num (currentPrice d))
                                             (js_mul (cheapPrice v) (Num (8 / 10)))) range)
                             (Num 100)
            in Math_min (Math_max pos (Num 0)) (Num 100))"

section \<open>Example snapshots\<close>

text \<open>
  A snapshot with a given current price and given cheap, fair and expensive prices, for
  the examples of the classification.
\<close>

definition sampleSnapshot :: "rat \<Rightarrow> rat \<Rightarrow> rat \<Rightarrow> rat \<Rightarrow> StockData" where
  "sampleSnapshot p c f e =
     \<lparr> source = [], isReal = True, symbol = [], name = [], currentPrice = p, change = 0,
       currentPE = None, historyData = [],
       valuation = \<lparr> minPE = 10, maxPE = 15, cheapPrice = Num c, fairPrice = Num f,
                     expensivePrice = Num e, eps = Num 8 \<rparr> \<rparr>"

text \<open>
  A platform with a given source of random numbers, a clock reading, and constant
  \<open>Math.sin\<close> and date formatting.
\<close>

definition samplePlatform :: "(nat \<Rightarrow> rat) \<Rightarrow> Platform" where
  "samplePlatform rnd =
     \<lparr> Date_now = 1700000000000, Math_random = rnd, Math_sin = (\<lambda>x. 0), toISODate = (\<lambda>t. []) \<rparr>"

section \<open>Properties of the moving average\<close>

lemma foldl_close_sum:
  "foldl (\<lambda>acc curr. acc + close curr) a xs = a + sum_list (map close xs)"
  by (induction xs arbitrary: a) (simp_all add: add.assoc)




text \<open>
  C8: for a series (newest first) with at least \<open>days\<close> records and a positive window,
  the moving average is the arithmetic mean of the first \<open>days\<close> closes.
\<close>

theorem calculateMA_mean:
  "0 < days \<Longrightarrow> days \<le> length xs \<Longrightarrow>
     calculateMA (Some xs) days = Num (sum_list (map close (take days xs)) / of_nat days)"
  by (simp add: calculateMA_def foldl_close_sum)

theorem calculateMA_mean_witness:
  "(0 :: nat) < 5 \<and>
   5 \<le> length (map (\<lambda>c. \<lparr>date = [], close = c, pe = 0\<rparr>)
                [20, 19, 18, 17, 16, 15, 14, 13, 12, 11, 10, 9, 8, 7, 6, 5, 4, 3, 2, 1]) \<and>
   calculateMA (Some (map (\<lambda>c. \<lparr>date = [], close = c, pe = 0\<rparr>)
                [20, 19, 18, 17, 16, 15, 14, 13, 12, 11, 10, 9, 8, 7, 6, 5, 4, 3, 2, 1])) 5
     = Num 18"
  using calculateMA_mean [of 5 "map (\<lambda>c. \<lparr>date = [], close = c, pe = 0\<rparr>)
                [20, 19, 18, 17, 16, 15, 14, 13, 12, 11, 10, 9, 8, 7, 6, 5, 4, 3, 2, 1]"]
  by (simp add: take_Cons')

section \<open>Properties of the live data path\<close>

lemma floorIndex_tenth: "floorIndex n (1 / 10) = n div 10"
proof -
  have "\<lfloor>of_nat n / (of_nat 10 :: rat)\<rfloor> = of_nat (n div 10)"
    by (rule floor_divide_of_nat_eq)
  then show ?thesis by (simp add: floorIndex_def)
qed

lemma floorIndex_nine_tenths: "floorIndex n (9 / 10) = (9 * n) div 10"
proof -
  have "\<lfloor>of_nat (9 * n) / (of_nat 10 :: rat)\<rfloor> = of_nat ((9 * n) div 10)"
    by (rule floor_divide_of_nat_eq)
  then show ?thesis by (simp add: floorIndex_def mult.commute)
qed

lemma floorIndex_tenth_less: "0 < n \<Longrightarrow> floorIndex n (1 / 10) < n"
  by (simp add: floorIndex_tenth)

lemma floorIndex_nine_tenths_less: "0 < n \<Longrightarrow> floorIndex n (9 / 10) < n"
  by (simp add: floorIndex_nine_tenths)

lemma floorIndex_le: "floorIndex n (1 / 10) \<le> floorIndex n (9 / 10)"
  by (simp add: floorIndex_tenth floorIndex_nine_tenths div_le_mono)

lemma validPEs_sorted: "sorted (validPEs r)"
  by (simp add: validPEs_def)

lemma validPEs_set:
  "set (validPEs r) = {x. Some x \<in> p_e_ratio ` set r \<and> 0 < x \<and> x < 200}"
  by (force simp: validPEs_def plausiblePE_def split: option.splits)

lemma validPEs_range: "x \<in> set (validPEs r) \<Longrightarrow> 0 < x \<and> x < 200"
  by (simp add: validPEs_set)

lemma sorted_first_is_Min: "sorted xs \<Longrightarrow> xs \<noteq> [] \<Longrightarrow> xs ! 0 = Min (set xs)"
  by (cases xs) (auto intro!: Min_eqI [symmetric])

lemma rev_first: "xs \<noteq> [] \<Longrightarrow> rev xs ! 0 = last xs"
  by (simp add: hd_rev flip: hd_conv_nth)

lemma fetchRealStockData_Inr:
  assumes "ps \<noteq> []"
  shows "fetchRealStockData symb (Some ps) (Some qs) info =
     Inr \<lparr> source = [0x46, 0x69, 0x6E, 0x4D, 0x69, 0x6E, 0x64, 0x20, 0x41, 0x50, 0x49],
           isReal = True, symbol = symb,
           name = (case info of Some (i # _) \<Rightarrow> stock_name i | _ \<Rightarrow> symb),
           currentPrice = close (last ps),
           change = toFixed2 (close (last ps)
                      - (if 1 < length ps then close (rev ps ! 1) else close (last ps))),
           currentPE = (if qs = [] then None else p_e_ratio (last qs)),
           historyData = map (joinPE (rev qs)) (rev ps),
           valuation = deriveValuation (close (last ps))
                         (if qs = [] then None else p_e_ratio (last qs)) (validPEs (rev qs)) \<rparr>"
  using assms by (simp add: fetchRealStockData_def Let_def rev_first)

lemma fetchRealStockData_InrD:
  assumes "fetchRealStockData symb pd qd info = Inr d"
  obtains ps qs where "pd = Some ps" "qd = Some qs" "ps \<noteq> []"
  using assms by (auto simp: fetchRealStockData_def split: option.splits if_splits)


lemma validCurrentPE_nonzero:
  assumes "vs \<noteq> []" and "\<forall>x\<in>set vs. 0 < x"
  shows "validCurrentPE c vs \<noteq> 0"
proof -
  from assms have "0 < vs ! 0" by (cases vs) auto
  then show ?thesis by (auto simp: validCurrentPE_def split: option.splits)
qed

lemma deriveValuation_fallback:
  assumes "length vs \<le> 10"
  shows "deriveValuation p c vs =
     \<lparr> minPE = 10, maxPE = 20, cheapPrice = Num (p / 15 * 10),
       fairPrice = Num ((p / 15 * 10 + p / 15 * 20) / 2),
       expensivePrice = Num (p / 15 * 20), eps = Num (p / 15) \<rparr>"
  using assms by (simp add: deriveValuation_def)

lemma deriveValuation_percentile:
  assumes "10 < length vs" and "validCurrentPE c vs \<noteq> 0"
  shows "deriveValuation p c vs =
     (let lo = vs ! floorIndex (length vs) (1 / 10);
          hi = vs ! floorIndex (length vs) (9 / 10);
          e = p / validCurrentPE c vs
      in \<lparr> minPE = lo, maxPE = hi, cheapPrice = Num (e * lo),
           fairPrice = Num ((e * lo + e * hi) / 2),
           expensivePrice = Num (e * hi), eps = Num e \<rparr>)"
  using assms by (simp add: deriveValuation_def Let_def)

text \<open>The shape of every band of the live path.\<close>

lemma deriveValuation_shape:
  assumes "sorted vs" and "\<forall>x\<in>set vs. 0 < x"
  shows "\<exists>r lo hi. r \<noteq> 0 \<and> 0 < lo \<and> lo \<le> hi \<and>
     deriveValuation p c vs =
       \<lparr> minPE = lo, maxPE = hi, cheapPrice = Num (p / r * lo),
         fairPrice = Num ((p / r * lo + p / r * hi) / 2),
         expensivePrice = Num (p / r * hi), eps = Num (p / r) \<rparr>"
proof (cases "10 < length vs")
  case True
  let ?i = "floorIndex (length vs) (1 / 10)"
  let ?j = "floorIndex (length vs) (9 / 10)"
  from True have ne: "vs \<noteq> []" and pos: "0 < length vs" by auto
  have i: "?i < length vs" and j: "?j < length vs"
    using pos by (rule floorIndex_tenth_less, rule floorIndex_nine_tenths_less)
  have r: "validCurrentPE c vs \<noteq> 0"
    using ne assms(2) by (rule validCurrentPE_nonzero)
  have lo: "0 < vs ! ?i" using i assms(2) by simp
  have "vs ! ?i \<le> vs ! ?j"
    using assms(1) floorIndex_le j by (rule sorted_nth_mono)
  with r lo deriveValuation_percentile [OF True r, of p] show ?thesis
    by (intro exI [of _ "validCurrentPE c vs"] exI [of _ "vs ! ?i"] exI [of _ "vs ! ?j"])
       (simp add: Let_def)
next
  case False
  then have "length vs \<le> 10" by simp
  from deriveValuation_fallback [OF this, of p c] show ?thesis
    by (intro exI [of _ 15] exI [of _ 10] exI [of _ 20]) simp
qed

lemma joinPE_fields:
  "date (joinPE r p) = date p" "close (joinPE r p) = close p"
  "pe (joinPE r p) =
     (case find (\<lambda>q. date q = date p) r of
        None \<Rightarrow> 0
      | Some q \<Rightarrow> (case p_e_ratio q of None \<Rightarrow> 0 | Some x \<Rightarrow> x))"
  by (simp_all add: joinPE_def split: option.splits)


text \<open>
  C2, as the code has it: the join is by exact date match. The record of the joined
  series at a position has the date and the close of the price record there (newest
  first) and the ratio of the first P/E record (newest first) with the same date; it has
  the P/E value 0 when that ratio is \<open>null\<close> and when no P/E record has the date.
\<close>

theorem join_by_date:
  assumes "ps \<noteq> []"
  shows "\<exists>d. fetchRealStockData symb (Some ps) (Some qs) info = Inr d \<and>
    length (historyData d) = length ps \<and>
    (\<forall>i<length ps.
       date (historyData d ! i) = date (rev ps ! i) \<and>
       close (historyData d ! i) = close (rev ps ! i) \<and>
       pe (historyData d ! i) =
         (case find (\<lambda>q. date q = date (rev ps ! i)) (rev qs) of
            None \<Rightarrow> 0
          | Some q \<Rightarrow> (case p_e_ratio q of None \<Rightarrow> 0 | Some x \<Rightarrow> x)) \<and>
       (date (rev ps ! i) \<notin> date ` set qs \<longrightarrow> pe (historyData d ! i) = 0))"
proof -
  have none: "find (\<lambda>q. date q = x) (rev qs) = None" if "x \<notin> date ` set qs" for x
    using that by (auto simp: find_None_iff)
  show ?thesis
    by (simp add: fetchRealStockData_Inr [OF assms] joinPE_fields none)
qed

theorem join_by_date_witness:
  "[\<lparr>date = [0x31 :: 16 word], close = 100 :: rat\<rparr>, \<lparr>date = [0x32], close = 101\<rparr>] \<noteq> [] \<and>
   (\<exists>d. fetchRealStockData [] (Some [\<lparr>date = [0x31], close = 100\<rparr>, \<lparr>date = [0x32], close = 101\<rparr>])
          (Some [\<lparr>date = [0x32], p_e_ratio = Some 12\<rparr>]) None = Inr d \<and>
        map date (historyData d) = [[0x32], [0x31]] \<and>
        map pe (historyData d) = [12, 0])"
  using join_by_date [of "[\<lparr>date = [0x31], close = 100\<rparr>, \<lparr>date = [0x32], close = 101\<rparr>]" "[]"
      "[\<lparr>date = [0x32], p_e_ratio = Some 12\<rparr>]" None]
  by (simp add: fetchRealStockData_Inr joinPE_def)

text \<open>
  C2, as the specification states it, fails: for one price record and no P/E record, the
  joined P/E value is the number 0, not an absent marker.
\<close>

theorem join_missing_counterexample:
  "(case fetchRealStockData [] (Some [\<lparr>date = [0x31], close = 100\<rparr>]) (Some []) None of
      Inl e \<Rightarrow> False
    | Inr d \<Rightarrow> map pe (historyData d) = [0])"
  by (simp add: fetchRealStockData_Inr joinPE_def)

text \<open>
  C3, as the code has it: when more than ten ratios survive the filter to the open
  interval from 0 to 200, with \<open>vs\<close> the survivors in ascending order and \<open>N\<close>
  their number, the band has \<open>minPE\<close> at index \<open>floor(0.1 * N)\<close> and \<open>maxPE\<close>
  at index \<open>floor(0.9 * N)\<close> of \<open>vs\<close>, and \<open>eps\<close> is the current price divided by
  the latest ratio when that is present and not zero, and by the smallest survivor when it
  is \<open>null\<close> or zero.
\<close>

theorem percentile_band:
  assumes "ps \<noteq> []" and "vs = validPEs (rev qs)" and "10 < length vs"
  shows "\<exists>d. fetchRealStockData symb (Some ps) (Some qs) info = Inr d \<and>
    sorted vs \<and> set vs = {x. Some x \<in> p_e_ratio ` set qs \<and> 0 < x \<and> x < 200} \<and>
    floorIndex (length vs) (1 / 10) < length vs \<and>
    floorIndex (length vs) (9 / 10) < length vs \<and>
    minPE (valuation d) = vs ! floorIndex (length vs) (1 / 10) \<and>
    maxPE (valuation d) = vs ! floorIndex (length vs) (9 / 10) \<and>
    currentPrice d = close (last ps) \<and>
    currentPE d = p_e_ratio (last qs) \<and>
    eps (valuation d) =
      (case currentPE d of
         None \<Rightarrow> Num (currentPrice d / Min (set vs))
       | Some x \<Rightarrow>
           if x \<noteq> 0 then Num (currentPrice d / x)
           else Num (currentPrice d / Min (set vs)))"
proof -
  have srt: "sorted vs" and rng: "\<forall>x\<in>set vs. 0 < x"
    using assms(2) by (auto simp: validPEs_sorted dest: validPEs_range)
  from assms(3) have ne: "vs \<noteq> []" and pos: "0 < length vs" by auto
  have qs: "qs \<noteq> []"
    using ne assms(2) by (auto simp: validPEs_def)
  have r: "validCurrentPE c vs \<noteq> 0" for c
    using ne rng by (rule validCurrentPE_nonzero)
  have m: "vs ! 0 = Min (set vs)"
    using srt ne by (rule sorted_first_is_Min)
  have s: "set vs = {x. Some x \<in> p_e_ratio ` set qs \<and> 0 < x \<and> x < 200}"
    by (simp add: assms(2) validPEs_set)
  have v: "valuation d = deriveValuation (close (last ps)) (p_e_ratio (last qs)) vs"
    if "fetchRealStockData symb (Some ps) (Some qs) info = Inr d" for d
    using that qs by (auto simp: fetchRealStockData_Inr [OF assms(1)] assms(2))
  show ?thesis
    apply (simp add: fetchRealStockData_Inr [OF assms(1)] qs flip: assms(2))
    apply (simp add: deriveValuation_percentile [OF assms(3) r] Let_def srt
        floorIndex_tenth_less [OF pos] floorIndex_nine_tenths_less [OF pos])
    apply (simp add: validCurrentPE_def m s split: option.splits)
    done
qed

theorem percentile_band_witness:
  "[\<lparr>date = [], close = 30 :: rat\<rparr>] \<noteq> [] \<and>
   [10, 11, 12, 13, 14, 15, 15, 16, 17, 18, 19, 20] =
     validPEs (rev (map (\<lambda>x. \<lparr>date = [], p_e_ratio = Some x\<rparr>)
                   [20, 11, 250, 12, 13, 14, 15, 16, 17, 18, 19, 10, 15])) \<and>
   10 < length [10, 11, 12, 13, 14, 15, 15, 16, 17, 18, 19, 20 :: rat] \<and>
   (\<exists>d. fetchRealStockData [] (Some [\<lparr>date = [], close = 30\<rparr>])
          (Some (map (\<lambda>x. \<lparr>date = [], p_e_ratio = Some x\<rparr>)
                   [20, 11, 250, 12, 13, 14, 15, 16, 17, 18, 19, 10, 15])) None = Inr d \<and>
        minPE (valuation d) = 11 \<and> maxPE (valuation d) = 19 \<and> eps (valuation d) = Num 2)"
proof -
  have v: "[10, 11, 12, 13, 14, 15, 15, 16, 17, 18, 19, 20] =
     validPEs (rev (map (\<lambda>x. \<lparr>date = [], p_e_ratio = Some x\<rparr>)
                   [20, 11, 250, 12, 13, 14, 15, 16, 17, 18, 19, 10, 15]))"
    by (simp add: validPEs_def plausiblePE_def)
  have n: "10 < length [10, 11, 12, 13, 14, 15, 15, 16, 17, 18, 19, 20 :: rat]" by simp
  have p: "[\<lparr>date = [], close = 30 :: rat\<rparr>] \<noteq> []" by simp
  from percentile_band [OF p v n, of "[]" None] show ?thesis
    by (simp add: fetchRealStockData_Inr validPEs_def plausiblePE_def deriveValuation_def
        validCurrentPE_def floorIndex_tenth floorIndex_nine_tenths)
qed

text \<open>
  C3, as the specification states it, fails when the latest ratio is present and zero:
  with eleven surviving ratios 10 to 20, a newest ratio 0 and the current price 30, the
  code divides by the smallest survivor (\<open>eps\<close> is 3), where the specification divides
  by the latest ratio.
\<close>

theorem percentile_band_zero_latest_counterexample:
  "(case fetchRealStockData [] (Some [\<lparr>date = [], close = 30\<rparr>])
          (Some (map (\<lambda>x. \<lparr>date = [], p_e_ratio = Some x\<rparr>)
                   [20, 11, 12, 13, 14, 15, 16, 17, 18, 19, 10, 0])) None of
      Inl e \<Rightarrow> False
    | Inr d \<Rightarrow>
        validPEs (rev (map (\<lambda>x. \<lparr>date = [], p_e_ratio = Some x\<rparr>)
                   [20, 11, 12, 13, 14, 15, 16, 17, 18, 19, 10, 0]))
          = [10, 11, 12, 13, 14, 15, 16, 17, 18, 19, 20] \<and>
        currentPrice d = 30 \<and> currentPE d = Some 0 \<and>
        eps (valuation d) = Num 3 \<and>
        js_div (Num (currentPrice d)) (Num 0) = PosInf)"
  by (simp add: fetchRealStockData_Inr validPEs_def plausiblePE_def deriveValuation_def
      validCurrentPE_def js_inf_def floorIndex_tenth floorIndex_nine_tenths)

lemma fetchRealStockData_ex:
  assumes "ps \<noteq> []"
  obtains d where "fetchRealStockData symb (Some ps) (Some qs) info = Inr d"
    and "currentPrice d = close (last ps)"
    and "currentPE d = (if qs = [] then None else p_e_ratio (last qs))"
    and "historyData d = map (joinPE (rev qs)) (rev ps)"
    and "valuation d = deriveValuation (currentPrice d) (currentPE d) (validPEs (rev qs))"
  using fetchRealStockData_Inr [OF assms, of symb qs info] by simp

text \<open>
  C4: when at most ten ratios survive the filter, the live path returns a snapshot (no
  error) whose band is the fixed one: \<open>minPE\<close> 10, \<open>maxPE\<close> 20 and \<open>eps\<close> the
  current price divided by 15. For the current price 150 that is \<open>eps\<close> 10, cheap price
  100, expensive price 200 and fair price 150.
\<close>

theorem fallback_band:
  assumes "ps \<noteq> []" and "length (validPEs (rev qs)) \<le> 10"
  shows "\<exists>d. fetchRealStockData symb (Some ps) (Some qs) info = Inr d \<and>
    currentPrice d = close (last ps) \<and>
    valuation d =
      \<lparr> minPE = 10, maxPE = 20,
        cheapPrice = Num (currentPrice d / 15 * 10),
        fairPrice = Num ((currentPrice d / 15 * 10 + currentPrice d / 15 * 20) / 2),
        expensivePrice = Num (currentPrice d / 15 * 20),
        eps = Num (currentPrice d / 15) \<rparr> \<and>
    (currentPrice d = 150 \<longrightarrow>
       valuation d =
         \<lparr> minPE = 10, maxPE = 20, cheapPrice = Num 100, fairPrice = Num 150,
           expensivePrice = Num 200, eps = Num 10 \<rparr>)"
  by (simp add: fetchRealStockData_Inr [OF assms(1)] deriveValuation_fallback [OF assms(2)])

theorem fallback_band_witness:
  "[\<lparr>date = [0x31 :: 16 word], close = 150 :: rat\<rparr>] \<noteq> [] \<and>
   length (validPEs (rev (map (\<lambda>x. \<lparr>date = [], p_e_ratio = x\<rparr>)
                        [Some 12, None, Some 0, Some 250, Some 14]))) \<le> 10 \<and>
   (\<exists>d. fetchRealStockData [] (Some [\<lparr>date = [0x31], close = 150\<rparr>])
          (Some (map (\<lambda>x. \<lparr>date = [], p_e_ratio = x\<rparr>)
                        [Some 12, None, Some 0, Some 250, Some 14])) None = Inr d \<and>
        currentPrice d = 150 \<and>
        valuation d =
          \<lparr> minPE = 10, maxPE = 20, cheapPrice = Num 100, fairPrice = Num 150,
            expensivePrice = Num 200, eps = Num 10 \<rparr>)"
proof -
  have p: "[\<lparr>date = [0x31 :: 16 word], close = 150 :: rat\<rparr>] \<noteq> []" by simp
  have n: "length (validPEs (rev (map (\<lambda>x. \<lparr>date = [], p_e_ratio = x\<rparr>)
                        [Some 12, None, Some 0, Some 250, Some 14]))) \<le> 10"
    by (simp add: validPEs_def plausiblePE_def)
  from fallback_band [OF p n, of "[]" None] p n show ?thesis
    by auto
qed

text \<open>
  C10: in the live path the divisor \<open>r\<close> of \<open>eps\<close> is never zero, so the division
  gives a finite number. With more than ten surviving ratios, a latest ratio that is
  \<open>null\<close> or zero is replaced by the smallest survivor, which is positive; a latest ratio
  that is not zero is used as it is, and a negative one gives a negative \<open>eps\<close> for a
  positive price. Otherwise the divisor is 15.
\<close>

theorem eps_divisor_nonzero:
  assumes "ps \<noteq> []" and "vs = validPEs (rev qs)"
  shows "\<exists>d r. fetchRealStockData symb (Some ps) (Some qs) info = Inr d \<and>
    r \<noteq> 0 \<and>
    eps (valuation d) = js_div (Num (currentPrice d)) (Num r) \<and>
    eps (valuation d) = Num (currentPrice d / r) \<and>
    (if 10 < length vs then
       (currentPE d = None \<or> currentPE d = Some 0 \<longrightarrow> r = Min (set vs) \<and> 0 < r) \<and>
       (\<forall>x. currentPE d = Some x \<and> x \<noteq> 0 \<longrightarrow> r = x) \<and>
       (\<forall>x. currentPE d = Some x \<and> x < 0 \<and> 0 < currentPrice d \<longrightarrow>
            (\<exists>e<0. eps (valuation d) = Num e))
     else r = 15)"
proof -
  from assms(1) obtain d where d: "fetchRealStockData symb (Some ps) (Some qs) info = Inr d"
    and v: "valuation d = deriveValuation (currentPrice d) (currentPE d) (validPEs (rev qs))"
    by (rule fetchRealStockData_ex)
  show ?thesis
  proof (cases "10 < length vs")
    case True
    have srt: "sorted vs" and rng: "\<forall>x\<in>set vs. 0 < x"
      using assms(2) by (auto simp: validPEs_sorted dest: validPEs_range)
    from True have ne: "vs \<noteq> []" by auto
    let ?r = "validCurrentPE (currentPE d) vs"
    have r: "?r \<noteq> 0"
      using ne rng by (rule validCurrentPE_nonzero)
    have m: "vs ! 0 = Min (set vs)"
      using srt ne by (rule sorted_first_is_Min)
    have mpos: "0 < Min (set vs)"
      using ne rng by simp
    have e: "eps (valuation d) = Num (currentPrice d / ?r)"
      using v deriveValuation_percentile [OF True r, of "currentPrice d"]
      by (simp add: Let_def flip: assms(2))
    have 1: "r = Min (set vs) \<and> 0 < r"
      if "currentPE d = None \<or> currentPE d = Some 0" "r = ?r" for r
      using that m mpos by (auto simp: validCurrentPE_def)
    have 2: "?r = x" if "currentPE d = Some x" "x \<noteq> 0" for x
      using that by (simp add: validCurrentPE_def)
    have 3: "\<exists>e<0. eps (valuation d) = Num e"
      if "currentPE d = Some x" "x < 0" "0 < currentPrice d" for x
    proof -
      from that have "?r = x" by (simp add: validCurrentPE_def)
      moreover from that have "currentPrice d / x < 0" by (simp add: divide_pos_neg)
      ultimately show ?thesis using e by simp
    qed
    from d r e 1 2 3 True show ?thesis
      by (intro exI [of _ d] exI [of _ ?r]) auto
  next
    case False
    then have le: "length vs \<le> 10" by simp
    have "eps (valuation d) = Num (currentPrice d / 15)"
      using v deriveValuation_fallback [OF le, of "currentPrice d"]
      by (simp flip: assms(2))
    with d False show ?thesis
      by (intro exI [of _ d] exI [of _ 15]) simp
  qed
qed

theorem eps_divisor_nonzero_witness:
  "[\<lparr>date = [], close = 30 :: rat\<rparr>] \<noteq> [] \<and>
   [10, 11, 12, 13, 14, 15, 16, 17, 18, 19, 20] =
     validPEs (rev (map (\<lambda>x. \<lparr>date = [], p_e_ratio = Some x\<rparr>)
                   [20, 11, 12, 13, 14, 15, 16, 17, 18, 19, 10, - 5])) \<and>
   (\<exists>d. fetchRealStockData [] (Some [\<lparr>date = [], close = 30\<rparr>])
          (Some (map (\<lambda>x. \<lparr>date = [], p_e_ratio = Some x\<rparr>)
                   [20, 11, 12, 13, 14, 15, 16, 17, 18, 19, 10, - 5])) None = Inr d \<and>
        currentPE d = Some (- 5) \<and> eps (valuation d) = Num (- 6))"
proof -
  have v: "[10, 11, 12, 13, 14, 15, 16, 17, 18, 19, 20] =
     validPEs (rev (map (\<lambda>x. \<lparr>date = [], p_e_ratio = Some x\<rparr>)
                   [20, 11, 12, 13, 14, 15, 16, 17, 18, 19, 10, - 5]))"
    by (simp add: validPEs_def plausiblePE_def)
  have p: "[\<lparr>date = [], close = 30 :: rat\<rparr>] \<noteq> []" by simp
  from eps_divisor_nonzero [OF p v, of "[]" None] show ?thesis
    by (simp add: fetchRealStockData_Inr validPEs_def plausiblePE_def deriveValuation_def
        validCurrentPE_def floorIndex_tenth floorIndex_nine_tenths)
qed

section \<open>Properties of the classification\<close>

text \<open>
  C5, as the code has it: the status is \<open>NoData\<close> when the cheap or the expensive price
  is zero or not a number (and when there is no snapshot); otherwise, with the lower
  threshold \<open>cheapPrice * 0.4 + fairPrice * 0.6\<close> and the upper threshold
  \<open>fairPrice * 0.4 + expensivePrice * 0.6\<close>, it is \<open>Cheap\<close> for a current price at most
  the lower threshold, \<open>Expensive\<close> for one at least the upper threshold, and \<open>Fair\<close>
  between them. For the prices 80, 100 and 120 the thresholds are 92 and 112: 92 is cheap,
  112 is expensive, 100 is fair.
\<close>

theorem valuationStatus_thresholds:
  assumes "cheapPrice (valuation d) = Num c" and "fairPrice (valuation d) = Num f"
    and "expensivePrice (valuation d) = Num e"
  shows "valuationStatus (Some d) =
     (if c = 0 \<or> e = 0 then NoData
      else if currentPrice d \<le> c * (4 / 10) + f * (6 / 10) then Cheap
      else if f * (4 / 10) + e * (6 / 10) \<le> currentPrice d then Expensive
      else Fair)
    \<and> valuationStatus (Some (d\<lparr>valuation := (valuation d)\<lparr>cheapPrice := NaN\<rparr>\<rparr>)) = NoData
    \<and> valuationStatus (Some (d\<lparr>valuation := (valuation d)\<lparr>expensivePrice := NaN\<rparr>\<rparr>)) = NoData
    \<and> valuationStatus None = NoData"
  using assms by (simp add: valuationStatus_def Let_def js_ge_def)

theorem valuationStatus_thresholds_witness:
  "valuationStatus (Some (sampleSnapshot 92 80 100 120)) = Cheap \<and>
   valuationStatus (Some (sampleSnapshot 100 80 100 120)) = Fair \<and>
   valuationStatus (Some (sampleSnapshot 112 80 100 120)) = Expensive \<and>
   valuationStatus (Some (sampleSnapshot 100 0 100 120)) = NoData \<and>
   (80 :: rat) * (4 / 10) + 100 * (6 / 10) = 92 \<and>
   (100 :: rat) * (4 / 10) + 120 * (6 / 10) = 112"
  using valuationStatus_thresholds [of "sampleSnapshot 92 80 100 120" 80 100 120]
    valuationStatus_thresholds [of "sampleSnapshot 100 80 100 120" 80 100 120]
    valuationStatus_thresholds [of "sampleSnapshot 112 80 100 120" 80 100 120]
    valuationStatus_thresholds [of "sampleSnapshot 100 0 100 120" 0 100 120]
  by (simp add: sampleSnapshot_def)

text \<open>
  C5, as the specification states it, fails in its example: for the prices 80, 100 and
  120 the upper threshold is 112, not 108, and the current price 108 is fair, not
  expensive.
\<close>

theorem valuationStatus_example_counterexample:
  "valuationStatus (Some (sampleSnapshot 108 80 100 120)) = Fair \<and>
   valuationStatus (Some (sampleSnapshot 108 80 100 120)) \<noteq> Expensive"
  by (simp add: sampleSnapshot_def valuationStatus_def js_ge_def)

section \<open>Properties of the mock data generator\<close>

text \<open>The loop is unfolded by hand, one step at a time.\<close>

declare generatePrices_loop.simps [simp del]

lemma body_length:
  "length (fst (snd (generatePrices_body P days i s))) = Suc (length (fst (snd s)))"
  by (simp add: generatePrices_body_def Let_def split: prod.splits)

lemma body_draws: "snd (snd (generatePrices_body P days i s)) = snd (snd s) + 2"
  by (simp add: generatePrices_body_def Let_def split: prod.splits)


lemma loop_length:
  "length (fst (snd (generatePrices_loop P days i s))) = length (fst (snd s)) + (days - i)"
proof (induction P days i s rule: generatePrices_loop.induct)
  case (1 P days i s)
  show ?case
  proof (cases "i < days")
    case True
    then show ?thesis
      by (subst generatePrices_loop.simps)
         (simp add: 1 body_length body_draws)
  next
    case False
    then show ?thesis by (simp add: generatePrices_loop.simps)
  qed
qed




text \<open>Rounding to two decimals keeps a lower bound that is a multiple of 1/100.\<close>

lemma toFixed2_ge:
  assumes "of_int n / 100 \<le> x" and "0 \<le> n"
  shows "of_int n / 100 \<le> toFixed2 x"
proof -
  from assms have x: "0 \<le> x" by (simp add: order_trans [of 0 "of_int n / 100"])
  from assms(1) have "of_int n \<le> x * 100 + 1 / 2" by (simp add: field_simps)
  then have "n \<le> \<lfloor>x * 100 + 1 / 2\<rfloor>" by (simp add: le_floor_iff)
  then have "(of_int n :: rat) \<le> of_int \<lfloor>x * 100 + 1 / 2\<rfloor>" by (simp only: of_int_le_iff)
  with x show ?thesis by (simp add: toFixed2_def divide_right_mono)
qed

lemma body_plausible:
  assumes "\<forall>k. 0 \<le> Math_random P k \<and> Math_random P k < 1"
    and "\<forall>h\<in>set (fst (snd s)). 10 \<le> close h \<and> 2 / 5 \<le> pe h"
  shows "\<forall>h\<in>set (fst (snd (generatePrices_body P days i s))). 10 \<le> close h \<and> 2 / 5 \<le> pe h"
proof -
  obtain price data k where s: "s = (price, data, k)" by (cases s)
  define price2 where "price2 =
    (if price + (Math_sin P (of_nat i * (1 / 10)) * 10 + (Math_random P k - 1 / 2) * 5) < 10
     then 10
     else price + (Math_sin P (of_nat i * (1 / 10)) * 10 + (Math_random P k - 1 / 2) * 5))"
  define r where "r = Math_random P (k + 1)"
  have p2: "10 \<le> price2" by (simp add: price2_def)
  have r: "0 \<le> r" "r < 1" using assms(1) by (simp_all add: r_def)
  have "of_int 1000 / 100 \<le> toFixed2 price2"
    using p2 by (intro toFixed2_ge) simp_all
  then have c: "10 \<le> toFixed2 price2" by simp
  have d: "0 < 20 + r * 5" using r by simp
  have "2 / 5 * (20 + r * 5) \<le> 10" using r by simp
  also have "\<dots> \<le> price2" by (rule p2)
  finally have "2 / 5 \<le> price2 / (20 + r * 5)"
    using d by (simp add: pos_le_divide_eq)
  then have "of_int 40 / 100 \<le> toFixed2 (price2 / (20 + r * 5))"
    by (intro toFixed2_ge) simp_all
  then have e: "2 / 5 \<le> toFixed2 (price2 / (20 + r * 5))" by simp
  have "fst (snd (generatePrices_body P days i s)) =
      data @ [\<lparr> date = toISODate P (Date_now P - (int days - int i) * 24 * 60 * 60 * 1000),
                 close = toFixed2 price2, pe = toFixed2 (price2 / (20 + r * 5)) \<rparr>]"
    by (simp add: s generatePrices_body_def Let_def price2_def r_def)
  with assms(2) c e show ?thesis by (simp add: s)
qed

lemma loop_plausible:
  "\<forall>k. 0 \<le> Math_random P k \<and> Math_random P k < 1 \<Longrightarrow>
   \<forall>h\<in>set (fst (snd s)). 10 \<le> close h \<and> 2 / 5 \<le> pe h \<Longrightarrow>
   \<forall>h\<in>set (fst (snd (generatePrices_loop P days i s))). 10 \<le> close h \<and> 2 / 5 \<le> pe h"
proof (induction P days i s rule: generatePrices_loop.induct)
  case (1 P days i s)
  show ?case
  proof (cases "i < days")
    case True
    have "\<forall>h\<in>set (fst (snd (generatePrices_body P days i s))). 10 \<le> close h \<and> 2 / 5 \<le> pe h"
      using 1(2,3) by (rule body_plausible)
    with True 1(2) have "\<forall>h\<in>set (fst (snd (generatePrices_loop P days (Suc i)
        (generatePrices_body P days i s)))). 10 \<le> close h \<and> 2 / 5 \<le> pe h"
      by (rule 1(1))
    with True show ?thesis
      by (simp add: generatePrices_loop.simps [of _ days i s])
  next
    case False
    with 1(3) show ?thesis by (simp add: generatePrices_loop.simps)
  qed
qed



subsection \<open>The generated series\<close>

lemma generatePrices_eq:
  "generatePrices P seed days =
     (rev (fst (snd (generatePrices_loop P days 0 (500 + of_nat (seed mod 200), [], 0)))),
      snd (snd (generatePrices_loop P days 0 (500 + of_nat (seed mod 200), [], 0))))"
  by (simp add: generatePrices_def case_prod_beta)

lemma generatePrices_length: "length (fst (generatePrices P seed days)) = days"
  by (simp add: generatePrices_eq loop_length)



lemma generatePrices_plausible:
  assumes "\<forall>k. 0 \<le> Math_random P k \<and> Math_random P k < 1"
  shows "\<forall>h\<in>set (fst (generatePrices P seed days)). 10 \<le> close h \<and> 2 / 5 \<le> pe h"
  using loop_plausible [OF assms, of "(500 + of_nat (seed mod 200), [], 0)" days 0]
  by (simp add: generatePrices_eq)




subsection \<open>The snapshot of the generator\<close>

lemma getMockData_fields:
  "historyData (getMockData P symb) = fst (generatePrices P (symbolSeed symb) (365 * 3))"
  "currentPrice (getMockData P symb) =
     close (fst (generatePrices P (symbolSeed symb) (365 * 3)) ! 0)"
  "currentPE (getMockData P symb) =
     Some (pe (fst (generatePrices P (symbolSeed symb) (365 * 3)) ! 0))"
  "change (getMockData P symb) =
     toFixed2 (Math_random P (snd (generatePrices P (symbolSeed symb) (365 * 3))) * 10 - 5)"
  "symbol (getMockData P symb) = symb"
  "isReal (getMockData P symb) = False"
  by (simp_all add: getMockData_def Let_def case_prod_beta)

lemma getMockData_valuation:
  "valuation (getMockData P symb) =
     (let h = fst (generatePrices P (symbolSeed symb) (365 * 3));
          vs = sort (map pe h);
          lo = vs ! floorIndex (length vs) (1 / 10);
          hi = vs ! floorIndex (length vs) (9 / 10);
          e = js_div (Num (close (h ! 0))) (Num (pe (h ! 0)))
      in \<lparr> minPE = lo, maxPE = hi, cheapPrice = js_mul e (Num lo),
           fairPrice = js_div (js_mul e (Num (lo + hi))) (Num 2),
           expensivePrice = js_mul e (Num hi), eps = e \<rparr>)"
  by (simp add: getMockData_def Let_def case_prod_beta)

lemma getMockData_shape:
  assumes "\<forall>k. 0 \<le> Math_random P k \<and> Math_random P k < 1"
  shows "\<exists>r lo hi. r \<noteq> 0 \<and> 0 < lo \<and> lo \<le> hi \<and> 10 \<le> currentPrice (getMockData P symb) \<and>
     valuation (getMockData P symb) =
       \<lparr> minPE = lo, maxPE = hi,
         cheapPrice = Num (currentPrice (getMockData P symb) / r * lo),
         fairPrice = Num ((currentPrice (getMockData P symb) / r * lo
                           + currentPrice (getMockData P symb) / r * hi) / 2),
         expensivePrice = Num (currentPrice (getMockData P symb) / r * hi),
         eps = Num (currentPrice (getMockData P symb) / r) \<rparr>"
proof -
  define h where "h = fst (generatePrices P (symbolSeed symb) (365 * 3))"
  define vs where "vs = sort (map pe h)"
  let ?i = "floorIndex (length vs) (1 / 10)"
  let ?j = "floorIndex (length vs) (9 / 10)"
  have len: "length h = 365 * 3" by (simp add: h_def generatePrices_length)
  have pl: "\<forall>x\<in>set h. 10 \<le> close x \<and> 2 / 5 \<le> pe x"
    unfolding h_def using assms by (rule generatePrices_plausible)
  have "h ! 0 \<in> set h" using len by (intro nth_mem) simp
  with pl have c0: "10 \<le> close (h ! 0)" and p0: "2 / 5 \<le> pe (h ! 0)" by auto
  have vlen: "0 < length vs" by (simp add: vs_def len)
  have i: "?i < length vs" and j: "?j < length vs"
    using vlen by (rule floorIndex_tenth_less, rule floorIndex_nine_tenths_less)
  have "vs ! ?i \<in> set vs" using i by (rule nth_mem)
  then have "vs ! ?i \<in> pe ` set h" by (simp add: vs_def)
  with pl have lo: "0 < vs ! ?i" by auto
  have "sorted vs" by (simp add: vs_def)
  then have le: "vs ! ?i \<le> vs ! ?j"
    using floorIndex_le j by (rule sorted_nth_mono)
  have r: "pe (h ! 0) \<noteq> 0" using p0 by auto
  have e: "js_div (Num (close (h ! 0))) (Num (pe (h ! 0))) = Num (close (h ! 0) / pe (h ! 0))"
    using r by simp
  have "valuation (getMockData P symb) =
       \<lparr> minPE = vs ! ?i, maxPE = vs ! ?j,
         cheapPrice = js_mul (js_div (Num (close (h ! 0))) (Num (pe (h ! 0)))) (Num (vs ! ?i)),
         fairPrice = js_div (js_mul (js_div (Num (close (h ! 0))) (Num (pe (h ! 0))))
                                    (Num (vs ! ?i + vs ! ?j))) (Num 2),
         expensivePrice = js_mul (js_div (Num (close (h ! 0))) (Num (pe (h ! 0)))) (Num (vs ! ?j)),
         eps = js_div (Num (close (h ! 0))) (Num (pe (h ! 0))) \<rparr>"
    by (simp only: getMockData_valuation Let_def h_def vs_def)
  then have v: "valuation (getMockData P symb) =
       \<lparr> minPE = vs ! ?i, maxPE = vs ! ?j,
         cheapPrice = Num (close (h ! 0) / pe (h ! 0) * vs ! ?i),
         fairPrice = Num ((close (h ! 0) / pe (h ! 0) * vs ! ?i
                           + close (h ! 0) / pe (h ! 0) * vs ! ?j) / 2),
         expensivePrice = Num (close (h ! 0) / pe (h ! 0) * vs ! ?j),
         eps = Num (close (h ! 0) / pe (h ! 0)) \<rparr>"
    unfolding e by (simp add: distrib_left add_divide_distrib)
  have cp: "currentPrice (getMockData P symb) = close (h ! 0)"
    by (simp only: getMockData_fields h_def)
  from r lo le c0 v show ?thesis
    unfolding cp by (intro exI [of _ "pe (h ! 0)"] exI [of _ "vs ! ?i"] exI [of _ "vs ! ?j"]) simp
qed

lemma fetchRealStockData_shape:
  assumes "fetchRealStockData symb pd qd info = Inr d"
  shows "\<exists>r lo hi. r \<noteq> 0 \<and> 0 < lo \<and> lo \<le> hi \<and>
     valuation d =
       \<lparr> minPE = lo, maxPE = hi,
         cheapPrice = Num (currentPrice d / r * lo),
         fairPrice = Num ((currentPrice d / r * lo + currentPrice d / r * hi) / 2),
         expensivePrice = Num (currentPrice d / r * hi),
         eps = Num (currentPrice d / r) \<rparr>"
proof -
  from assms obtain ps qs where pd: "pd = Some ps" and qd: "qd = Some qs" and ne: "ps \<noteq> []"
    by (rule fetchRealStockData_InrD)
  from ne obtain d' where d': "fetchRealStockData symb (Some ps) (Some qs) info = Inr d'"
    and v: "valuation d' = deriveValuation (currentPrice d') (currentPE d') (validPEs (rev qs))"
    by (rule fetchRealStockData_ex)
  from assms d' have "d' = d" by (simp add: pd qd)
  with v have "valuation d = deriveValuation (currentPrice d) (currentPE d) (validPEs (rev qs))"
    by simp
  moreover have "\<forall>x\<in>set (validPEs (rev qs)). 0 < x"
    by (auto dest: validPEs_range)
  ultimately show ?thesis
    using deriveValuation_shape [OF validPEs_sorted, of "rev qs" "currentPrice d" "currentPE d"]
    by simp
qed



section \<open>Properties of every produced snapshot\<close>

lemma produced_shape:
  assumes "fetchRealStockData symb pd qd info = Inr d \<or>
           (d = getMockData P symb \<and> (\<forall>k. 0 \<le> Math_random P k \<and> Math_random P k < 1))"
  shows "\<exists>r lo hi. r \<noteq> 0 \<and> 0 < lo \<and> lo \<le> hi \<and>
     valuation d =
       \<lparr> minPE = lo, maxPE = hi,
         cheapPrice = Num (currentPrice d / r * lo),
         fairPrice = Num ((currentPrice d / r * lo + currentPrice d / r * hi) / 2),
         expensivePrice = Num (currentPrice d / r * hi),
         eps = Num (currentPrice d / r) \<rparr>"
  using assms
proof
  assume "fetchRealStockData symb pd qd info = Inr d"
  then show ?thesis by (rule fetchRealStockData_shape)
next
  assume a: "d = getMockData P symb \<and> (\<forall>k. 0 \<le> Math_random P k \<and> Math_random P k < 1)"
  then have "\<forall>k. 0 \<le> Math_random P k \<and> Math_random P k < 1" ..
  from getMockData_shape [OF this, of symb] a show ?thesis by blast
qed



lemma cursorPosition_finite:
  assumes "cheapPrice (valuation d) = Num c" and "expensivePrice (valuation d) = Num x"
    and "c \<noteq> 0" and "x * (12 / 10) - c * (8 / 10) \<noteq> 0"
  shows "cursorPosition (Some d) =
     Num (min (max ((currentPrice d - c * (8 / 10)) / (x * (12 / 10) - c * (8 / 10)) * 100) 0) 100)"
  using assms
  by (simp add: cursorPosition_def Let_def js_sub_def Math_max_def Math_min_def min_def max_def)

text \<open>
  C6: for every snapshot that the live path or the generator produces, the cursor
  position lies between 0 and 100, wherever the current price lies; and when the current
  price is not zero, the divisor below is not zero and the position is
  \<open>(currentPrice - cheapPrice * 0.8) / (expensivePrice * 1.2 - cheapPrice * 0.8) * 100\<close>
  clamped to the interval from 0 to 100.
\<close>

theorem cursorPosition_clamped:
  assumes "fetchRealStockData symb pd qd info = Inr d \<or>
           (d = getMockData P symb \<and> (\<forall>k. 0 \<le> Math_random P k \<and> Math_random P k < 1))"
  shows "js_le (Num 0) (cursorPosition (Some d)) \<and> js_le (cursorPosition (Some d)) (Num 100) \<and>
    (currentPrice d \<noteq> 0 \<longrightarrow>
      (\<exists>c x. cheapPrice (valuation d) = Num c \<and> expensivePrice (valuation d) = Num x \<and>
         x * (12 / 10) - c * (8 / 10) \<noteq> 0 \<and>
         cursorPosition (Some d) =
           Num (min (max ((currentPrice d - c * (8 / 10)) / (x * (12 / 10) - c * (8 / 10)) * 100)
                         0) 100)))"
proof -
  from produced_shape [OF assms] obtain r lo hi where r: "r \<noteq> 0" and lo: "0 < lo"
    and le: "lo \<le> hi"
    and v: "valuation d =
       \<lparr> minPE = lo, maxPE = hi,
         cheapPrice = Num (currentPrice d / r * lo),
         fairPrice = Num ((currentPrice d / r * lo + currentPrice d / r * hi) / 2),
         expensivePrice = Num (currentPrice d / r * hi),
         eps = Num (currentPrice d / r) \<rparr>"
    by blast
  let ?e = "currentPrice d / r"
  let ?c = "?e * lo" and ?x = "?e * hi"
  have cp: "cheapPrice (valuation d) = Num ?c" and xp: "expensivePrice (valuation d) = Num ?x"
    by (simp_all add: v)
  show ?thesis
  proof (cases "currentPrice d = 0")
    case True
    with cp have "cursorPosition (Some d) = Num 50"
      by (simp add: cursorPosition_def)
    with True show ?thesis by simp
  next
    case False
    have e: "?e \<noteq> 0" using r False by simp
    have c: "?c \<noteq> 0" using e lo by simp
    have "0 < hi * (12 / 10) - lo * (8 / 10)" using lo le by simp
    then have "?e * (hi * (12 / 10) - lo * (8 / 10)) \<noteq> 0" using e by simp
    then have rng: "?x * (12 / 10) - ?c * (8 / 10) \<noteq> 0" by (simp add: algebra_simps)
    have pos: "cursorPosition (Some d) =
       Num (min (max ((currentPrice d - ?c * (8 / 10)) / (?x * (12 / 10) - ?c * (8 / 10)) * 100) 0) 100)"
      using cp xp c rng by (rule cursorPosition_finite)
    have lower: "js_le (Num 0) (cursorPosition (Some d))"
      and upper: "js_le (cursorPosition (Some d)) (Num 100)"
      unfolding pos by simp_all
    from cp xp rng pos lower upper show ?thesis by blast
  qed
qed

theorem cursorPosition_clamped_witness:
  "(\<exists>d. fetchRealStockData [] (Some [\<lparr>date = [], close = 750\<rparr>])
          (Some (map (\<lambda>x. \<lparr>date = [], p_e_ratio = Some x\<rparr>)
                   [20, 11, 12, 13, 14, 15, 16, 17, 18, 19, 10, 150])) None = Inr d \<and>
        currentPrice d = 750 \<and>
        cheapPrice (valuation d) = Num 55 \<and> expensivePrice (valuation d) = Num 100 \<and>
        cursorPosition (Some d) = Num 100) \<and>
   (\<exists>d. fetchRealStockData [] (Some [\<lparr>date = [], close = 150\<rparr>]) (Some []) None = Inr d \<and>
        currentPrice d = 150 \<and> cursorPosition (Some d) = Num (175 / 4))"
proof -
  let ?qs = "map (\<lambda>x. \<lparr>date = [] :: jsstring, p_e_ratio = Some x\<rparr>)
                   [20, 11, 12, 13, 14, 15, 16, 17, 18, 19, 10, 150 :: rat]"
  let ?P = "samplePlatform (\<lambda>k. 0)"
  have "[\<lparr>date = [] :: jsstring, close = 750 :: rat\<rparr>] \<noteq> []" by simp
  then obtain d where d: "fetchRealStockData [] (Some [\<lparr>date = [], close = 750\<rparr>]) (Some ?qs) None = Inr d"
    and cp: "currentPrice d = close (last [\<lparr>date = [] :: jsstring, close = 750 :: rat\<rparr>])"
    and ce: "currentPE d = (if ?qs = [] then None else p_e_ratio (last ?qs))"
    and v: "valuation d = deriveValuation (currentPrice d) (currentPE d) (validPEs (rev ?qs))"
    by (rule fetchRealStockData_ex)
  have pos: "currentPrice d = 750" by (simp add: cp)
  have val: "cheapPrice (valuation d) = Num 55 \<and> expensivePrice (valuation d) = Num 100"
    by (simp add: v cp ce deriveValuation_def validPEs_def plausiblePE_def validCurrentPE_def
        floorIndex_tenth floorIndex_nine_tenths)
  from d have "fetchRealStockData [] (Some [\<lparr>date = [], close = 750\<rparr>]) (Some ?qs) None = Inr d \<or>
     (d = getMockData ?P [] \<and> (\<forall>k. 0 \<le> Math_random ?P k \<and> Math_random ?P k < 1))"
    by (rule disjI1)
  from cursorPosition_clamped [OF this] pos obtain c x
    where "cheapPrice (valuation d) = Num c" and "expensivePrice (valuation d) = Num x"
      and "cursorPosition (Some d) =
        Num (min (max ((currentPrice d - c * (8 / 10)) / (x * (12 / 10) - c * (8 / 10)) * 100) 0) 100)"
    by auto
  with val pos have 1: "cursorPosition (Some d) = Num 100" by simp
  have "[\<lparr>date = [] :: jsstring, close = 150 :: rat\<rparr>] \<noteq> []" by simp
  then obtain d' where d': "fetchRealStockData [] (Some [\<lparr>date = [], close = 150\<rparr>]) (Some []) None = Inr d'"
    and cp': "currentPrice d' = close (last [\<lparr>date = [] :: jsstring, close = 150 :: rat\<rparr>])"
    and v': "valuation d' = deriveValuation (currentPrice d') (currentPE d') (validPEs (rev []))"
    by (rule fetchRealStockData_ex)
  have pos': "currentPrice d' = 150" by (simp add: cp')
  have val': "cheapPrice (valuation d') = Num 100 \<and> expensivePrice (valuation d') = Num 200"
    by (simp add: v' cp' deriveValuation_def validPEs_def)
  from d' have "fetchRealStockData [] (Some [\<lparr>date = [], close = 150\<rparr>]) (Some []) None = Inr d' \<or>
     (d' = getMockData ?P [] \<and> (\<forall>k. 0 \<le> Math_random ?P k \<and> Math_random ?P k < 1))"
    by (rule disjI1)
  from cursorPosition_clamped [OF this] pos' obtain c' x'
    where "cheapPrice (valuation d') = Num c'" and "expensivePrice (valuation d') = Num x'"
      and "cursorPosition (Some d') =
        Num (min (max ((currentPrice d' - c' * (8 / 10)) / (x' * (12 / 10) - c' * (8 / 10)) * 100) 0) 100)"
    by auto
  with val' pos' have 2: "cursorPosition (Some d') = Num (175 / 4)" by simp
  from d pos val 1 d' pos' 2 show ?thesis by blast
qed

end
